theory Spec2Isabelle
  imports Main "HOL-Library.Char_ord" "HOL-Library.List_Lexorder" "HOL-Library.Multiset"
begin

section \<open>Python values used by \<open>src/ahg/git.py\<close>\<close>

text \<open>
  A Python \<open>bytes\<close> value is a list of 8-bit characters. A Python \<open>str\<close> is
  represented by its UTF-8 encoding, so \<open>encode("utf8")\<close> is the identity,
  \<open>decode("utf8")\<close> is the identity on valid UTF-8 and fails elsewhere, and the
  code-point order of \<open>str\<close> is the lexicographic byte order (UTF-8 keeps the order of
  code points). Identities (\<open>sha\<close>) are ASCII strings, where slicing by code point
  and by byte agree.
\<close>

type_synonym bytes = string

abbreviation NUL :: char where "NUL \<equiv> CHR 0x00"
abbreviation NL :: char where "NL \<equiv> CHR 0x0A"
abbreviation SP :: char where "SP \<equiv> CHR '' ''"

text \<open>
  Every \<open>raise\<close> of the source and every exception of the Python runtime that the
  modelled functions can meet is one constructor. The source raises the bare class
  \<open>Exception\<close> with four different messages; each message is one constructor, named
  after the condition it reports.
\<close>

datatype error =
    ObjectNotFound       \<comment> \<open>\<open>Exception("Object {sha} not found!")\<close>\<close>
  | MalformedObject      \<comment> \<open>\<open>Exception("Malformed object {sha}: bad length")\<close>\<close>
  | UnknownObjectType    \<comment> \<open>\<open>Exception("Unknown type {fmt} for object {sha}")\<close>\<close>
  | NotADirectory        \<comment> \<open>\<open>Exception("Not a directory {full_path}")\<close>\<close>
  | AssertionError
  | AttributeError
  | IndexError
  | KeyError
  | TypeError
  | ValueError
  | OverflowError
  | UnicodeDecodeError
  | ZlibError
  | OSError

subsection \<open>Indexing, slicing and searching\<close>

text \<open>A slice bound: negative bounds count from the end, every bound is clamped.\<close>

definition py_norm :: "nat \<Rightarrow> int \<Rightarrow> nat" where
  "py_norm n i = (if i < 0 then nat (int n + i) else min n (nat i))"

text \<open>\<open>xs[a:b]\<close> and \<open>xs[a:]\<close>.\<close>

definition py_slice :: "'a list \<Rightarrow> int \<Rightarrow> int \<Rightarrow> 'a list" where
  "py_slice xs a b =
     (let i = py_norm (length xs) a; j = py_norm (length xs) b in take (j - i) (drop i xs))"

definition py_slice_from :: "'a list \<Rightarrow> int \<Rightarrow> 'a list" where
  "py_slice_from xs a = drop (py_norm (length xs) a) xs"

text \<open>\<open>xs[i]\<close>: a negative index counts from the end, an index out of range raises.\<close>

definition py_getitem :: "'a list \<Rightarrow> int \<Rightarrow> error + 'a" where
  "py_getitem xs i =
     (let n = int (length xs); j = (if i < 0 then i + n else i) in
      if 0 \<le> j \<and> j < n then Inr (xs ! nat j) else Inl IndexError)"

fun first_index :: "'a \<Rightarrow> 'a list \<Rightarrow> nat option" where
  "first_index c [] = None"
| "first_index c (x # xs) = (if x = c then Some 0 else map_option Suc (first_index c xs))"

text \<open>\<open>raw.find(c, start)\<close> for a one-byte pattern \<open>c\<close>: the least index at or after
  \<open>start\<close> that holds \<open>c\<close>, or \<open>-1\<close>.\<close>

definition py_find :: "'a list \<Rightarrow> 'a \<Rightarrow> int \<Rightarrow> int" where
  "py_find xs c start =
     (let i = py_norm (length xs) start in
      case first_index c (drop i xs) of None \<Rightarrow> - 1 | Some k \<Rightarrow> int (i + k))"

text \<open>\<open>xs.startswith(p)\<close>.\<close>

fun startswith :: "'a list \<Rightarrow> 'a list \<Rightarrow> bool" where
  "startswith xs [] = True"
| "startswith [] (p # ps) = False"
| "startswith (x # xs) (p # ps) = (x = p \<and> startswith xs ps)"

text \<open>\<open>xs.replace(old, new)\<close> for a non-empty \<open>old\<close>: every occurrence, left to right,
  without overlap. The source only replaces the non-empty patterns \<open>b"\n "\<close>,
  \<open>b"\n"\<close>, \<open>"\\"\<close> and \<open>'"'\<close>.\<close>

function py_replace :: "'a list \<Rightarrow> 'a list \<Rightarrow> 'a list \<Rightarrow> 'a list" where
  "py_replace old new [] = []"
| "py_replace old new (x # xs) =
     (if old \<noteq> [] \<and> startswith (x # xs) old
      then new @ py_replace old new (drop (length old) (x # xs))
      else x # py_replace old new xs)"
  by pat_completeness auto
termination
  by (relation "measure (\<lambda>(old, new, xs). length xs)") (auto simp: neq_Nil_conv)

subsection \<open>Integers and their text\<close>

text \<open>The digit characters, in lower case; only digits below 16 are ever asked for.\<close>

definition digit_char :: "nat \<Rightarrow> char" where
  "digit_char d = ''0123456789abcdef'' ! d"

text \<open>\<open>str(n).encode()\<close> for a length \<open>n\<close>: its decimal digits.\<close>

function str_of_nat :: "nat \<Rightarrow> string" where
  "str_of_nat n = (if n < 10 then [digit_char n] else str_of_nat (n div 10) @ [digit_char (n mod 10)])"
  by pat_completeness auto
termination
  by (relation "measure id") auto

declare str_of_nat.simps [simp del]

text \<open>The value of a digit in base \<open>b\<close>, as \<open>int(s, b)\<close> reads it.\<close>

definition digit_val :: "nat \<Rightarrow> char \<Rightarrow> nat option" where
  "digit_val b c =
     (let n = (of_char c :: nat);
          v = (if 48 \<le> n \<and> n \<le> 57 then Some (n - 48)
               else if 97 \<le> n \<and> n \<le> 122 then Some (n - 87)
               else if 65 \<le> n \<and> n \<le> 90 then Some (n - 55)
               else None)
      in case v of None \<Rightarrow> None | Some d \<Rightarrow> if d < b then Some d else None)"

text \<open>Digits with single underscores between them (PEP 515).\<close>

fun py_digits :: "nat \<Rightarrow> int \<Rightarrow> string \<Rightarrow> int option" where
  "py_digits b acc [] = None"
| "py_digits b acc (c # cs) =
     (case digit_val b c of
        None \<Rightarrow> None
      | Some d \<Rightarrow>
          (let acc' = acc * int b + int d in
           case cs of
             [] \<Rightarrow> Some acc'
           | c' # cs' \<Rightarrow>
               if c' = CHR ''_'' then (if cs' = [] then None else py_digits b acc' cs')
               else py_digits b acc' cs))"

definition int_space :: "char \<Rightarrow> bool" where
  "int_space c = ((of_char c :: nat) \<in> {9, 10, 11, 12, 13, 32})"

text \<open>
  \<open>int(s)\<close> and \<open>int(s, 16)\<close> on ASCII text: white space is stripped at both ends,
  one sign is allowed, base 16 allows the prefix \<open>0x\<close> or \<open>0X\<close> (and one underscore
  after it), then come the digits. Anything else is a \<open>ValueError\<close>. The
  interpreter's configurable limit on the number of decimal digits is not modelled.
\<close>

definition py_int :: "nat \<Rightarrow> string \<Rightarrow> error + int" where
  "py_int b s =
     (let t = rev (dropWhile int_space (rev (dropWhile int_space s)));
          neg = (t \<noteq> [] \<and> hd t = CHR ''-'');
          u = (if t \<noteq> [] \<and> (hd t = CHR ''-'' \<or> hd t = CHR ''+'') then tl t else t);
          v = (if b = 16 \<and> (startswith u ''0x'' \<or> startswith u ''0X'')
               then (if startswith (drop 2 u) ''_'' then drop 3 u else drop 2 u)
               else u)
      in case py_digits b 0 v of
           None \<Rightarrow> Inl ValueError
         | Some n \<Rightarrow> Inr (if neg then - n else n))"

text \<open>\<open>int.from_bytes(bs, "big")\<close>.\<close>

definition from_bytes_big :: "bytes \<Rightarrow> int" where
  "from_bytes_big bs = foldl (\<lambda>acc c. acc * 256 + of_char c) 0 bs"

text \<open>The \<open>k\<close> low base-\<open>b\<close> digits of \<open>n\<close>, most significant first.\<close>

fun digits_be :: "int \<Rightarrow> nat \<Rightarrow> int \<Rightarrow> int list" where
  "digits_be b 0 n = []"
| "digits_be b (Suc k) n = digits_be b k (n div b) @ [n mod b]"

text \<open>\<open>n.to_bytes(20, byteorder="big")\<close>: an \<open>OverflowError\<close> for a negative number
  and for one that does not fit.\<close>

definition to_bytes_big :: "nat \<Rightarrow> int \<Rightarrow> error + bytes" where
  "to_bytes_big k n =
     (if n < 0 \<or> 256 ^ k \<le> n then Inl OverflowError
      else Inr (map char_of (digits_be 256 k n)))"

text \<open>The number of hexadecimal digits of \<open>n\<close>.\<close>

function hex_len :: "int \<Rightarrow> nat" where
  "hex_len n = (if n < 16 then 1 else Suc (hex_len (n div 16)))"
  by pat_completeness auto
termination
  by (relation "measure nat") auto

declare hex_len.simps [simp del]

text \<open>\<open>format(n, "040x")\<close> for \<open>n \<ge> 0\<close>: lower-case hexadecimal, padded with zeros
  to at least 40 digits.\<close>

definition format_040x :: "int \<Rightarrow> string" where
  "format_040x n = map (\<lambda>d. digit_char (nat d)) (digits_be 16 (max 40 (hex_len n)) n)"

subsection \<open>Text codecs\<close>

definition is_cont :: "char \<Rightarrow> bool" where
  "is_cont c = (128 \<le> (of_char c :: nat) \<and> (of_char c :: nat) \<le> 191)"

definition in_range :: "nat \<Rightarrow> nat \<Rightarrow> char \<Rightarrow> bool" where
  "in_range lo hi c = (lo \<le> (of_char c :: nat) \<and> (of_char c :: nat) \<le> hi)"

text \<open>Well-formed UTF-8 (no overlong form, no surrogate, nothing above U+10FFFF), as
  the strict decoder accepts it.\<close>

fun utf8_valid :: "bytes \<Rightarrow> bool" where
  "utf8_valid [] = True"
| "utf8_valid (c # cs) =
     (let b = (of_char c :: nat) in
      if b < 128 then utf8_valid cs
      else if 194 \<le> b \<and> b \<le> 223 then
        (case cs of c1 # r \<Rightarrow> is_cont c1 \<and> utf8_valid r | _ \<Rightarrow> False)
      else if 224 \<le> b \<and> b \<le> 239 then
        (case cs of
           c1 # c2 # r \<Rightarrow>
             in_range (if b = 224 then 160 else 128) (if b = 237 then 159 else 191) c1
               \<and> is_cont c2 \<and> utf8_valid r
         | _ \<Rightarrow> False)
      else if 240 \<le> b \<and> b \<le> 244 then
        (case cs of
           c1 # c2 # c3 # r \<Rightarrow>
             in_range (if b = 240 then 144 else 128) (if b = 244 then 143 else 191) c1
               \<and> is_cont c2 \<and> is_cont c3 \<and> utf8_valid r
         | _ \<Rightarrow> False)
      else False)"

text \<open>\<open>bs.decode("utf8")\<close> and \<open>bs.decode("ascii")\<close>.\<close>

definition decode_utf8 :: "bytes \<Rightarrow> error + string" where
  "decode_utf8 bs = (if utf8_valid bs then Inr bs else Inl UnicodeDecodeError)"

definition decode_ascii :: "bytes \<Rightarrow> error + string" where
  "decode_ascii bs =
     (if list_all (\<lambda>c. (of_char c :: nat) < 128) bs then Inr bs else Inl UnicodeDecodeError)"

section \<open>The object model\<close>

subsection \<open>\<open>GitObject.__init__\<close>\<close>

text \<open>
  \<open>if data: self.deserialize(data)\<close>: the test is Python's truth of \<open>data\<close>, which
  is false for \<open>None\<close> and for the empty byte string alike. \<open>deserialize\<close> is the
  method of the subclass, \<open>self\<close> the object under construction.
\<close>

definition GitObject_init :: "(bytes \<Rightarrow> 'o \<Rightarrow> 'r) \<Rightarrow> ('o \<Rightarrow> 'r) \<Rightarrow> bytes option \<Rightarrow> 'o \<Rightarrow> 'r" where
  "GitObject_init deserialize skip data self =
     (case data of
        None \<Rightarrow> skip self
      | Some d \<Rightarrow> if d \<noteq> [] then deserialize d self else skip self)"

subsection \<open>\<open>GitBlob\<close>\<close>

text \<open>The attribute \<open>blobdata\<close> exists only once \<open>deserialize\<close> has run: \<open>None\<close> is
  the object without the attribute.\<close>

record GitBlob =
  blobdata :: "bytes option"

definition GitBlob_deserialize :: "bytes \<Rightarrow> GitBlob \<Rightarrow> GitBlob" where
  "GitBlob_deserialize data self = self\<lparr>blobdata := Some data\<rparr>"

definition GitBlob_serialize :: "GitBlob \<Rightarrow> error + bytes" where
  "GitBlob_serialize self = (case blobdata self of None \<Rightarrow> Inl AttributeError | Some d \<Rightarrow> Inr d)"

definition GitBlob_init :: "bytes option \<Rightarrow> GitBlob" where
  "GitBlob_init data = GitObject_init GitBlob_deserialize (\<lambda>self. self) data \<lparr>blobdata = None\<rparr>"

subsection \<open>The KVLM codec\<close>

text \<open>
  A value of the mapping is a byte string or a Python list. \<open>kvlm_parse\<close> builds the
  list \<open>[dct[key], value]\<close> from whatever \<open>dct[key]\<close> holds, so lists nest. The
  mapping is an \<open>OrderedDict\<close>: an association list in insertion order, with at most
  one pair for a key; the key \<open>None\<close> holds the message.
\<close>

datatype kvlm_val = Bytes bytes | ValList "kvlm_val list"

type_synonym kvlm = "(bytes option \<times> kvlm_val) list"

fun dict_get :: "('k \<times> 'v) list \<Rightarrow> 'k \<Rightarrow> 'v option" where
  "dict_get [] k = None"
| "dict_get ((k', v) # d) k = (if k' = k then Some v else dict_get d k)"

text \<open>\<open>d[k] = v\<close>: a key already there keeps its place, a new key goes last.\<close>

fun dict_set :: "('k \<times> 'v) list \<Rightarrow> 'k \<Rightarrow> 'v \<Rightarrow> ('k \<times> 'v) list" where
  "dict_set [] k v = [(k, v)]"
| "dict_set ((k', v') # d) k v = (if k' = k then (k, v) # d else (k', v') # dict_set d k v)"

text \<open>
  The loop that looks for the end of a value:
  \<^verbatim>\<open>
    while True:
        end = raw.find(b"\n", end + 1)
        if raw[end + 1] != ord(" "):
            break
  \<close>
  When no newline is left, \<open>find\<close> gives \<open>-1\<close> and the loop reads \<open>raw[0]\<close>; it can
  then go round for ever, so the result is an option and \<open>None\<close> is the loop that
  does not end.
\<close>

partial_function (option) kvlm_scan :: "bytes \<Rightarrow> int \<Rightarrow> (error + int) option" where
  "kvlm_scan raw end0 =
     (let end1 = py_find raw NL (end0 + 1) in
      case py_getitem raw (end1 + 1) of
        Inl e \<Rightarrow> Some (Inl e)
      | Inr c \<Rightarrow> if c \<noteq> SP then Some (Inr end1) else kvlm_scan raw end1)"

declare kvlm_scan.simps [code]

text \<open>
  \<open>kvlm_parse(raw, start, dct)\<close>. \<open>not dct\<close> holds of \<open>None\<close> and of an empty
  mapping; both become the empty mapping. The test \<open>dct[key] is list\<close> compares the
  stored value with the type \<open>list\<close> itself and is false for every byte string and
  every list, so a repeated key always takes the \<open>else\<close> branch. The recursion is
  Python's call recursion, one call for each header line; the interpreter's limit on
  its depth (a \<open>RecursionError\<close> on headers of about a thousand lines) is not
  modelled, and \<open>None\<close> is a parse that does not return.
\<close>

partial_function (option) kvlm_parse :: "bytes \<Rightarrow> int \<Rightarrow> kvlm option \<Rightarrow> (error + kvlm) option" where
  "kvlm_parse raw start dct =
     (let dct = (case dct of None \<Rightarrow> [] | Some d \<Rightarrow> d);
          spc = py_find raw SP start;
          nl = py_find raw NL start
      in
      if spc < 0 \<or> nl < spc then
        (if nl = start then Some (Inr (dict_set dct None (Bytes (py_slice_from raw (start + 1)))))
         else Some (Inl AssertionError))
      else
        (let key = py_slice raw start spc in
         case kvlm_scan raw start of
           None \<Rightarrow> None
         | Some (Inl e) \<Rightarrow> Some (Inl e)
         | Some (Inr end) \<Rightarrow>
             (let val = py_replace [NL, SP] [NL] (py_slice raw (spc + 1) end);
                  dct = (case dict_get dct (Some key) of
                           Some old \<Rightarrow> dict_set dct (Some key) (ValList [old, Bytes val])
                         | None \<Rightarrow> dict_set dct (Some key) (Bytes val))
              in kvlm_parse raw (end + 1) (Some dct))))"

declare kvlm_parse.simps [code]

text \<open>
  The inner loop of \<open>kvlm_serialize\<close>, \<open>for v in val\<close>. \<open>v.replace\<close> exists on a
  byte string only: on a list it is an \<open>AttributeError\<close>.
\<close>

fun kvlm_emit :: "bytes \<Rightarrow> kvlm_val list \<Rightarrow> bytes \<Rightarrow> error + bytes" where
  "kvlm_emit k [] ret = Inr ret"
| "kvlm_emit k (v # vs) ret =
     (case v of
        ValList _ \<Rightarrow> Inl AttributeError
      | Bytes b \<Rightarrow> kvlm_emit k vs (ret @ k @ [SP] @ py_replace [NL] [NL, SP] b @ [NL]))"

text \<open>
  The outer loop, \<open>for k in kvlm.keys()\<close>. \<open>not k\<close> skips the key \<open>None\<close> and the
  empty key. The test \<open>val is not list\<close> compares the value with the type \<open>list\<close>
  itself and holds of every value, so \<open>val\<close> is always wrapped: \<open>val = [val]\<close>.
\<close>

fun kvlm_keys :: "kvlm \<Rightarrow> bytes option list \<Rightarrow> bytes \<Rightarrow> error + bytes" where
  "kvlm_keys kv [] ret = Inr ret"
| "kvlm_keys kv (k # ks) ret =
     (case k of
        None \<Rightarrow> kvlm_keys kv ks ret
      | Some kb \<Rightarrow>
          if kb = [] then kvlm_keys kv ks ret
          else
            (case dict_get kv k of
               None \<Rightarrow> Inl KeyError
             | Some val \<Rightarrow>
                 (let val = [val] in
                  case kvlm_emit kb val ret of
                    Inl e \<Rightarrow> Inl e
                  | Inr ret \<Rightarrow> kvlm_keys kv ks ret)))"

text \<open>\<open>ret += b"\n" + kvlm[None] + b"\n"\<close>: a \<open>KeyError\<close> without a message, a
  \<open>TypeError\<close> when the message is not a byte string.\<close>

definition kvlm_serialize :: "kvlm \<Rightarrow> error + bytes" where
  "kvlm_serialize kv =
     (case kvlm_keys kv (map fst kv) [] of
        Inl e \<Rightarrow> Inl e
      | Inr ret \<Rightarrow>
          (case dict_get kv None of
             None \<Rightarrow> Inl KeyError
           | Some (ValList _) \<Rightarrow> Inl TypeError
           | Some (Bytes m) \<Rightarrow> Inr (ret @ [NL] @ m @ [NL])))"

subsection \<open>The tree codec\<close>

record GitTreeLeaf =
  mode :: bytes
  path :: string
  sha :: string

text \<open>
  \<open>tree_parse_one(raw, start)\<close>. A mode of five bytes gets the byte \<open>b" "\<close> in
  front. A missing NUL gives \<open>y = -1\<close>, and the slices then read \<open>raw[x+1:-1]\<close> and
  \<open>raw[0:20]\<close> without an error.
\<close>

definition tree_parse_one :: "bytes \<Rightarrow> int \<Rightarrow> error + (int \<times> GitTreeLeaf)" where
  "tree_parse_one raw start =
     (let x = py_find raw SP start in
      if x - start = 5 \<or> x - start = 6 then
        (let mode0 = py_slice raw start x;
             mode1 = (if length mode0 = 5 then [SP] @ mode0 else mode0);
             y = py_find raw NUL x;
             path0 = py_slice raw (x + 1) y;
             sha0 = format_040x (from_bytes_big (py_slice raw (y + 1) (y + 21)))
         in case decode_utf8 path0 of
              Inl e \<Rightarrow> Inl e
            | Inr p \<Rightarrow> Inr (y + 21, \<lparr>mode = mode1, path = p, sha = sha0\<rparr>))
      else Inl AssertionError)"

text \<open>
  The loop of \<open>tree_parse\<close>, \<open>while pos < max\<close>. After an entry without a NUL the
  position is 20 again, so the loop need not end.
\<close>

partial_function (option) tree_parse_loop ::
  "bytes \<Rightarrow> int \<Rightarrow> GitTreeLeaf list \<Rightarrow> (error + GitTreeLeaf list) option" where
  "tree_parse_loop raw pos ret =
     (if pos < int (length raw) then
        (case tree_parse_one raw pos of
           Inl e \<Rightarrow> Some (Inl e)
         | Inr (pos', data) \<Rightarrow> tree_parse_loop raw pos' (ret @ [data]))
      else Some (Inr ret))"

declare tree_parse_loop.simps [code]

definition tree_parse :: "bytes \<Rightarrow> (error + GitTreeLeaf list) option" where
  "tree_parse raw = tree_parse_loop raw 0 []"

definition tree_leaf_sort_key :: "GitTreeLeaf \<Rightarrow> string" where
  "tree_leaf_sort_key leaf =
     (if startswith (mode leaf) ''10'' then path leaf else path leaf @ ''/'')"

text \<open>The loop of \<open>tree_serialize\<close>, \<open>for i in obj.items\<close>. \<open>int(i.sha, 16)\<close> can
  raise \<open>ValueError\<close> and \<open>to_bytes\<close> can raise \<open>OverflowError\<close>.\<close>

fun tree_emit :: "GitTreeLeaf list \<Rightarrow> bytes \<Rightarrow> error + bytes" where
  "tree_emit [] ret = Inr ret"
| "tree_emit (i # rest) ret =
     (let ret = ret @ mode i;
          ret = ret @ [SP];
          ret = ret @ path i;
          ret = ret @ [NUL]
      in case py_int 16 (sha i) of
           Inl e \<Rightarrow> Inl e
         | Inr n \<Rightarrow>
             (case to_bytes_big 20 n of
                Inl e \<Rightarrow> Inl e
              | Inr b \<Rightarrow> tree_emit rest (ret @ b)))"

text \<open>
  A \<open>GitTree\<close> object; \<open>items = None\<close> is the object without the attribute.
  \<open>tree_serialize\<close> sorts \<open>obj.items\<close> in place (\<open>list.sort\<close> is stable, as
  \<open>sort_key\<close> is), so it returns the object too.
\<close>

record GitTree =
  items :: "GitTreeLeaf list option"

definition tree_serialize :: "'a GitTree_scheme \<Rightarrow> (error + bytes) \<times> 'a GitTree_scheme" where
  "tree_serialize obj =
     (case items obj of
        None \<Rightarrow> (Inl AttributeError, obj)
      | Some its \<Rightarrow>
          (let its = sort_key tree_leaf_sort_key its;
               obj = obj\<lparr>items := Some its\<rparr>
           in (tree_emit its [], obj)))"

subsection \<open>\<open>GitCommit\<close>, \<open>GitTag\<close> and \<open>GitTree\<close>\<close>

text \<open>
  \<open>GitCommit.__init__\<close> first runs \<open>GitObject.__init__\<close>, which may call
  \<open>deserialize\<close>, and then assigns \<open>self.kvlm = dict()\<close>: whatever \<open>deserialize\<close>
  stored is replaced by the empty mapping. \<open>GitTag\<close> inherits all of it.
  \<open>GitTree.__init__\<close> does the same with \<open>self.items = list()\<close>.
\<close>

record GitCommit =
  kvlm :: "kvlm option"

definition GitCommit_deserialize :: "bytes \<Rightarrow> GitCommit \<Rightarrow> (error + GitCommit) option" where
  "GitCommit_deserialize data self =
     (case kvlm_parse data 0 None of
        None \<Rightarrow> None
      | Some (Inl e) \<Rightarrow> Some (Inl e)
      | Some (Inr kv) \<Rightarrow> Some (Inr (self\<lparr>kvlm := Some kv\<rparr>)))"

definition GitCommit_serialize :: "GitCommit \<Rightarrow> error + bytes" where
  "GitCommit_serialize self =
     (case kvlm self of None \<Rightarrow> Inl AttributeError | Some kv \<Rightarrow> kvlm_serialize kv)"

definition GitCommit_init :: "bytes option \<Rightarrow> (error + GitCommit) option" where
  "GitCommit_init data =
     (case GitObject_init GitCommit_deserialize (\<lambda>self. Some (Inr self)) data \<lparr>kvlm = None\<rparr> of
        None \<Rightarrow> None
      | Some (Inl e) \<Rightarrow> Some (Inl e)
      | Some (Inr self) \<Rightarrow> Some (Inr (self\<lparr>kvlm := Some []\<rparr>)))"

definition GitTree_deserialize :: "bytes \<Rightarrow> GitTree \<Rightarrow> (error + GitTree) option" where
  "GitTree_deserialize data self =
     (case tree_parse data of
        None \<Rightarrow> None
      | Some (Inl e) \<Rightarrow> Some (Inl e)
      | Some (Inr its) \<Rightarrow> Some (Inr (self\<lparr>items := Some its\<rparr>)))"

definition GitTree_init :: "bytes option \<Rightarrow> (error + GitTree) option" where
  "GitTree_init data =
     (case GitObject_init GitTree_deserialize (\<lambda>self. Some (Inr self)) data \<lparr>items = None\<rparr> of
        None \<Rightarrow> None
      | Some (Inl e) \<Rightarrow> Some (Inl e)
      | Some (Inr self) \<Rightarrow> Some (Inr (self\<lparr>items := Some []\<rparr>)))"

text \<open>An object is an instance of one of the four classes; \<open>fmt\<close> is the class
  attribute, \<open>serialize\<close> the method of the class.\<close>

datatype GitObject = Blob GitBlob | Commit GitCommit | Tree GitTree | Tag GitCommit

fun fmt :: "GitObject \<Rightarrow> bytes" where
  "fmt (Blob _) = ''blob''"
| "fmt (Commit _) = ''commit''"
| "fmt (Tree _) = ''tree''"
| "fmt (Tag _) = ''tag''"

fun serialize :: "GitObject \<Rightarrow> (error + bytes) \<times> GitObject" where
  "serialize (Blob b) = (GitBlob_serialize b, Blob b)"
| "serialize (Commit c) = (GitCommit_serialize c, Commit c)"
| "serialize (Tag c) = (GitCommit_serialize c, Tag c)"
| "serialize (Tree t) = (case tree_serialize t of (r, t') \<Rightarrow> (r, Tree t'))"

section \<open>The object store\<close>

subsection \<open>Library functions and the file system\<close>

text \<open>
  \<open>zlib\<close> and \<open>hashlib.sha1\<close> are parameters of the model. \<open>zlib.decompress\<close> fails
  on some inputs (\<open>None\<close>, a \<open>zlib.error\<close>). The digest is a number whose low 160
  bits count; \<open>hexdigest()\<close> is its 40 hexadecimal digits.
\<close>

record pylib =
  zlib_compress :: "bytes \<Rightarrow> bytes"
  zlib_decompress :: "bytes \<Rightarrow> bytes option"
  sha1_digest :: "bytes \<Rightarrow> int"

definition sha1_hexdigest :: "pylib \<Rightarrow> bytes \<Rightarrow> string" where
  "sha1_hexdigest L b = map (\<lambda>d. digit_char (nat d)) (digits_be 16 40 (sha1_digest L b))"

text \<open>
  The file system maps a path, as the program writes it, to what is there: a regular
  file with its bytes, a directory, or nothing. Links and permissions are not
  modelled, and the model does not tie a path to its parent (a state may hold a file
  below a missing directory).
\<close>

datatype node = File bytes | Dir

type_synonym filesystem = "string \<Rightarrow> node option"

definition os_path_exists :: "filesystem \<Rightarrow> string \<Rightarrow> bool" where
  "os_path_exists fs p = (case fs p of None \<Rightarrow> False | Some _ \<Rightarrow> True)"

definition os_path_isdir :: "filesystem \<Rightarrow> string \<Rightarrow> bool" where
  "os_path_isdir fs p = (case fs p of Some Dir \<Rightarrow> True | _ \<Rightarrow> False)"

definition os_path_isfile :: "filesystem \<Rightarrow> string \<Rightarrow> bool" where
  "os_path_isfile fs p = (case fs p of Some (File _) \<Rightarrow> True | _ \<Rightarrow> False)"

text \<open>\<open>os.path.join(a, *ps)\<close> (\<open>posixpath\<close>): a part that starts with \<open>/\<close> replaces
  what came before it.\<close>

fun os_path_join :: "string \<Rightarrow> string list \<Rightarrow> string" where
  "os_path_join a [] = a"
| "os_path_join a (b # ps) =
     os_path_join
       (if startswith b ''/'' then b
        else if a = [] \<or> last a = CHR ''/'' then a @ b
        else a @ ''/'' @ b) ps"

text \<open>The proper prefixes of a path that end just before a \<open>/\<close>: its ancestors.\<close>

fun prefixes_from :: "string \<Rightarrow> string \<Rightarrow> string list" where
  "prefixes_from acc [] = []"
| "prefixes_from acc (c # cs) =
     (if c = CHR ''/'' \<and> acc \<noteq> [] then [acc] else []) @ prefixes_from (acc @ [c]) cs"

definition path_prefixes :: "string \<Rightarrow> string list" where
  "path_prefixes p = prefixes_from [] p"

text \<open>\<open>os.makedirs(p)\<close>: the directory and its missing ancestors are created; an
  \<open>OSError\<close> when \<open>p\<close> is there already or an ancestor is a regular file.\<close>

definition os_makedirs :: "filesystem \<Rightarrow> string \<Rightarrow> error + filesystem" where
  "os_makedirs fs p =
     (if list_ex (os_path_isfile fs) (path_prefixes p) \<or> os_path_exists fs p then Inl OSError
      else Inr (\<lambda>q. if q \<in> set (path_prefixes p @ [p]) \<and> fs q = None then Some Dir
                     else fs q))"

text \<open>\<open>with open(p, "wb") as f: f.write(data)\<close>: an \<open>OSError\<close> on a directory.\<close>

definition os_write_file :: "filesystem \<Rightarrow> string \<Rightarrow> bytes \<Rightarrow> error + filesystem" where
  "os_write_file fs p data =
     (case fs p of Some Dir \<Rightarrow> Inl OSError | _ \<Rightarrow> Inr (fs(p \<mapsto> File data)))"

subsection \<open>Repository paths\<close>

text \<open>Of a \<open>GitRepository\<close> the object store reads \<open>gitdir\<close> only; \<open>conf\<close> is left
  out.\<close>

record GitRepository =
  worktree :: string
  gitdir :: string

definition repo_path :: "GitRepository \<Rightarrow> string list \<Rightarrow> string" where
  "repo_path repo ps = os_path_join (gitdir repo) ps"

definition repo_dir ::
  "filesystem \<Rightarrow> GitRepository \<Rightarrow> string list \<Rightarrow> bool \<Rightarrow> (error + string option) \<times> filesystem" where
  "repo_dir fs repo ps mkdir =
     (let full_path = repo_path repo ps in
      if os_path_exists fs full_path then
        (if os_path_isdir fs full_path then (Inr (Some full_path), fs)
         else (Inl NotADirectory, fs))
      else if mkdir then
        (case os_makedirs fs full_path of
           Inl e \<Rightarrow> (Inl e, fs)
         | Inr fs' \<Rightarrow> (Inr (Some full_path), fs'))
      else (Inr None, fs))"

text \<open>\<open>repo_file\<close>: \<open>path[:-1]\<close> is \<open>butlast\<close>; the \<open>if\<close> is Python's truth of what
  \<open>repo_dir\<close> returned (false for \<open>None\<close> and for the empty string); without a
  \<open>return\<close> the function gives \<open>None\<close>.\<close>

definition repo_file ::
  "filesystem \<Rightarrow> GitRepository \<Rightarrow> string list \<Rightarrow> bool \<Rightarrow> (error + string option) \<times> filesystem" where
  "repo_file fs repo ps mkdir =
     (case repo_dir fs repo (butlast ps) mkdir of
        (Inl e, fs') \<Rightarrow> (Inl e, fs')
      | (Inr None, fs') \<Rightarrow> (Inr None, fs')
      | (Inr (Some d), fs') \<Rightarrow>
          if d \<noteq> [] then (Inr (Some (repo_path repo ps)), fs') else (Inr None, fs'))"

subsection \<open>\<open>object_read\<close> and \<open>object_write\<close>\<close>

text \<open>
  \<open>object_read(repo, sha)\<close>. \<open>os.path.isfile(None)\<close> is a \<open>TypeError\<close>. The message
  of the last \<open>raise\<close> decodes \<open>fmt\<close>, which can itself fail. The result is an option
  because the constructors of commits, tags and trees run parsers that need not return.
  (The variable \<open>sha\<close> of the source is written \<open>sha'\<close>, \<open>sha\<close> being the field of a
  tree entry.)
\<close>

definition object_read ::
  "pylib \<Rightarrow> filesystem \<Rightarrow> GitRepository \<Rightarrow> string \<Rightarrow> (error + GitObject) option" where
  "object_read L fs repo sha' =
     (case fst (repo_file fs repo [''objects'', py_slice sha' 0 2, py_slice_from sha' 2] False) of
        Inl e \<Rightarrow> Some (Inl e)
      | Inr None \<Rightarrow> Some (Inl TypeError)
      | Inr (Some p) \<Rightarrow>
          (case fs p of
             None \<Rightarrow> Some (Inl ObjectNotFound)
           | Some Dir \<Rightarrow> Some (Inl ObjectNotFound)
           | Some (File content) \<Rightarrow>
               (case zlib_decompress L content of
                  None \<Rightarrow> Some (Inl ZlibError)
                | Some raw \<Rightarrow>
                    (let x = py_find raw SP 0;
                         fmt0 = py_slice raw 0 x;
                         y = py_find raw NUL x
                     in case decode_ascii (py_slice raw x y) of
                          Inl e \<Rightarrow> Some (Inl e)
                        | Inr s \<Rightarrow>
                            (case py_int 10 s of
                               Inl e \<Rightarrow> Some (Inl e)
                             | Inr size' \<Rightarrow>
                                 if size' \<noteq> int (length raw) - y - 1 then Some (Inl MalformedObject)
                                 else
                                   (let data = Some (py_slice_from raw (y + 1)) in
                                    if fmt0 = ''commit'' then
                                      map_option (map_sum id Commit) (GitCommit_init data)
                                    else if fmt0 = ''tree'' then
                                      map_option (map_sum id Tree) (GitTree_init data)
                                    else if fmt0 = ''tag'' then
                                      map_option (map_sum id Tag) (GitCommit_init data)
                                    else if fmt0 = ''blob'' then
                                      Some (Inr (Blob (GitBlob_init data)))
                                    else
                                      (case decode_ascii fmt0 of
                                         Inl e \<Rightarrow> Some (Inl e)
                                       | Inr _ \<Rightarrow> Some (Inl UnknownObjectType))))))))"

text \<open>
  \<open>object_write(obj, repo)\<close> returns the identity, the object (a tree is sorted by
  \<open>serialize\<close>) and the file system. \<open>if repo:\<close> holds of every repository object.
  \<open>os.path.exists(None)\<close> is a \<open>TypeError\<close>.
\<close>

definition object_write ::
  "pylib \<Rightarrow> GitObject \<Rightarrow> GitRepository option \<Rightarrow> filesystem \<Rightarrow> (error + string) \<times> GitObject \<times> filesystem" where
  "object_write L obj repo fs =
     (case serialize obj of
        (Inl e, obj') \<Rightarrow> (Inl e, obj', fs)
      | (Inr data, obj') \<Rightarrow>
          (let result = fmt obj' @ [SP] @ str_of_nat (length data) @ [NUL] @ data;
               sha' = sha1_hexdigest L result
           in case repo of
                None \<Rightarrow> (Inr sha', obj', fs)
              | Some r \<Rightarrow>
                  (case repo_file fs r [''objects'', py_slice sha' 0 2, py_slice_from sha' 2] True of
                     (Inl e, fs1) \<Rightarrow> (Inl e, obj', fs1)
                   | (Inr None, fs1) \<Rightarrow> (Inl TypeError, obj', fs1)
                   | (Inr (Some p), fs1) \<Rightarrow>
                       if \<not> os_path_exists fs1 p then
                         (case os_write_file fs1 p (zlib_compress L result) of
                            Inl e \<Rightarrow> (Inl e, obj', fs1)
                          | Inr fs2 \<Rightarrow> (Inr sha', obj', fs2))
                       else (Inr sha', obj', fs1))))"

text \<open>
  \<open>object_hash(fd, fmt, repo)\<close>, with \<open>data\<close> the bytes that \<open>fd.read()\<close> returns.
  The last \<open>raise\<close> is \<open>Exception("Unknown type {fmt}!")\<close>.
\<close>

definition object_hash ::
  "pylib \<Rightarrow> bytes \<Rightarrow> bytes \<Rightarrow> GitRepository option \<Rightarrow> filesystem
     \<Rightarrow> ((error + string) \<times> filesystem) option" where
  "object_hash L data fmt0 repo fs =
     (case (if fmt0 = ''commit'' then map_option (map_sum id Commit) (GitCommit_init (Some data))
            else if fmt0 = ''tree'' then map_option (map_sum id Tree) (GitTree_init (Some data))
            else if fmt0 = ''tag'' then map_option (map_sum id Tag) (GitCommit_init (Some data))
            else if fmt0 = ''blob'' then Some (Inr (Blob (GitBlob_init (Some data))))
            else Some (Inl UnknownObjectType)) of
        None \<Rightarrow> None
      | Some (Inl e) \<Rightarrow> Some (Inl e, fs)
      | Some (Inr obj) \<Rightarrow>
          (case object_write L obj repo fs of (r, obj', fs') \<Rightarrow> Some (r, fs')))"

subsection \<open>The two paths of an object\<close>

text \<open>The directory and the file that \<open>object_read\<close> and \<open>object_write\<close> derive
  from an identity: \<open>objects/\<close>, the first two characters, the rest.\<close>

abbreviation object_dir :: "GitRepository \<Rightarrow> string \<Rightarrow> string" where
  "object_dir repo s \<equiv> repo_path repo [''objects'', py_slice s 0 2]"

abbreviation object_path :: "GitRepository \<Rightarrow> string \<Rightarrow> string" where
  "object_path repo s \<equiv> repo_path repo [''objects'', py_slice s 0 2, py_slice_from s 2]"

section \<open>Commit graph traversal\<close>

abbreviation DQ :: char where "DQ \<equiv> CHR 0x22"
abbreviation BS :: char where "BS \<equiv> CHR 0x5C"

text \<open>A valid UTF-8 string cut into its characters: a lead byte and the continuation
  bytes after it.\<close>

function utf8_chars :: "bytes \<Rightarrow> bytes list" where
  "utf8_chars [] = []"
| "utf8_chars (c # cs) = (c # takeWhile is_cont cs) # utf8_chars (dropWhile is_cont cs)"
  by pat_completeness auto
termination
  by (relation "measure length") (auto simp: length_dropWhile_le le_imp_less_Suc)

text \<open>The white-space characters of \<open>str.strip()\<close>, in UTF-8: U+0009 to U+000D,
  U+001C to U+0020, U+0085, U+00A0, U+1680, U+2000 to U+200A, U+2028, U+2029, U+202F,
  U+205F and U+3000.\<close>

definition str_space :: "bytes \<Rightarrow> bool" where
  "str_space ch = (ch \<in> set
     [[CHR 0x09], [CHR 0x0A], [CHR 0x0B], [CHR 0x0C], [CHR 0x0D],
      [CHR 0x1C], [CHR 0x1D], [CHR 0x1E], [CHR 0x1F], [CHR 0x20],
      [CHR 0xC2, CHR 0x85], [CHR 0xC2, CHR 0xA0], [CHR 0xE1, CHR 0x9A, CHR 0x80],
      [CHR 0xE2, CHR 0x80, CHR 0x80], [CHR 0xE2, CHR 0x80, CHR 0x81],
      [CHR 0xE2, CHR 0x80, CHR 0x82], [CHR 0xE2, CHR 0x80, CHR 0x83],
      [CHR 0xE2, CHR 0x80, CHR 0x84], [CHR 0xE2, CHR 0x80, CHR 0x85],
      [CHR 0xE2, CHR 0x80, CHR 0x86], [CHR 0xE2, CHR 0x80, CHR 0x87],
      [CHR 0xE2, CHR 0x80, CHR 0x88], [CHR 0xE2, CHR 0x80, CHR 0x89],
      [CHR 0xE2, CHR 0x80, CHR 0x8A], [CHR 0xE2, CHR 0x80, CHR 0xA8],
      [CHR 0xE2, CHR 0x80, CHR 0xA9], [CHR 0xE2, CHR 0x80, CHR 0xAF],
      [CHR 0xE2, CHR 0x81, CHR 0x9F], [CHR 0xE3, CHR 0x80, CHR 0x80]])"

definition py_strip :: "string \<Rightarrow> string" where
  "py_strip s = concat (rev (dropWhile str_space (rev (dropWhile str_space (utf8_chars s)))))"

text \<open>
  The label of a node, lines 341 to 346 of the source: the message is decoded and
  stripped, backslashes and double quotes are escaped, and only the first line is kept.
\<close>

definition commit_label :: "bytes \<Rightarrow> error + string" where
  "commit_label m =
     (case decode_utf8 m of
        Inl e \<Rightarrow> Inl e
      | Inr message \<Rightarrow>
          (let message = py_strip message;
               message = py_replace [BS] [BS, BS] message;
               message = py_replace [DQ] [BS, DQ] message;
               message = (if NL \<in> set message then py_slice message 0 (py_find message NL 0)
                          else message)
           in Inr message))"

text \<open>
  \<open>log_graphviz(repo, sha, seen)\<close>. The state is the set \<open>seen\<close> and the lines
  printed so far; both survive an exception. \<open>isinstance(commit, GitCommit)\<close> holds
  of commits and of tags. The test \<open>parents is not list\<close> holds of every value, so
  \<open>parents\<close> is always wrapped and the loop \<open>for p in parents\<close> (\<open>log_parents\<close>) runs
  over the one-element list; \<open>p.decode\<close> exists on a byte string only. The first
  argument bounds the depth of Python's call recursion, and \<open>None\<close> is a traversal
  that does not return (out of depth, or a parser that does not return).
\<close>

type_synonym log_state = "string set \<times> string list"

fun log_graphviz ::
    "nat \<Rightarrow> pylib \<Rightarrow> filesystem \<Rightarrow> GitRepository \<Rightarrow> string \<Rightarrow> log_state
      \<Rightarrow> ((error + unit) \<times> log_state) option"
  and log_parents ::
    "nat \<Rightarrow> pylib \<Rightarrow> filesystem \<Rightarrow> GitRepository \<Rightarrow> string \<Rightarrow> kvlm_val list \<Rightarrow> log_state
      \<Rightarrow> ((error + unit) \<times> log_state) option"
where
  "log_graphviz 0 L fs repo sha' st = None"
| "log_graphviz (Suc n) L fs repo sha' (seen, out) =
     (if sha' \<in> seen then Some (Inr (), seen, out)
      else
        (let seen = insert sha' seen in
         case object_read L fs repo sha' of
           None \<Rightarrow> None
         | Some (Inl e) \<Rightarrow> Some (Inl e, seen, out)
         | Some (Inr obj) \<Rightarrow>
             (case (case obj of Commit c \<Rightarrow> Some c | Tag c \<Rightarrow> Some c | _ \<Rightarrow> None) of
                None \<Rightarrow> Some (Inl AssertionError, seen, out)
              | Some commit \<Rightarrow>
                  (case kvlm commit of
                     None \<Rightarrow> Some (Inl AttributeError, seen, out)
                   | Some kv \<Rightarrow>
                       (let short_hash = py_slice sha' 0 8 in
                        case dict_get kv None of
                          None \<Rightarrow> Some (Inl KeyError, seen, out)
                        | Some (ValList _) \<Rightarrow> Some (Inl AttributeError, seen, out)
                        | Some (Bytes m) \<Rightarrow>
                            (case commit_label m of
                               Inl e \<Rightarrow> Some (Inl e, seen, out)
                             | Inr message \<Rightarrow>
                                 (let out = out @ [''  c_'' @ sha' @ '' [label='' @ [DQ] @ short_hash
                                                    @ '': '' @ message @ [DQ] @ '']'']
                                  in case dict_get kv (Some ''parent'') of
                                       None \<Rightarrow> Some (Inr (), seen, out)
                                     | Some parents \<Rightarrow>
                                         (let parents = [parents]
                                          in log_parents n L fs repo sha' parents (seen, out)))))))))"
| "log_parents n L fs repo sha' [] st = Some (Inr (), st)"
| "log_parents n L fs repo sha' (p # ps) (seen, out) =
     (case p of
        ValList _ \<Rightarrow> Some (Inl AttributeError, seen, out)
      | Bytes pb \<Rightarrow>
          (case decode_ascii pb of
             Inl e \<Rightarrow> Some (Inl e, seen, out)
           | Inr p' \<Rightarrow>
               (let out = out @ [''  c_'' @ sha' @ '' -> c_'' @ p']
                in case log_graphviz n L fs repo p' (seen, out) of
                     None \<Rightarrow> None
                   | Some (Inl e, st) \<Rightarrow> Some (Inl e, st)
                   | Some (Inr u, st) \<Rightarrow> log_parents n L fs repo sha' ps st)))"

section \<open>Example inputs\<close>

text \<open>A commit header with one \<open>tree\<close> line and one \<open>parent\<close> line, and the same
  header with a second \<open>parent\<close> line, each followed by the blank line and the
  message \<open>fix bug\<close>.\<close>

definition one_parent :: bytes where
  "one_parent =
     ''tree 4b825dc642cb6eb9a060e54bf8d69288fbee4904'' @ [NL] @
     ''parent 1111111111111111111111111111111111111111'' @ [NL] @
     [NL] @ ''fix bug'' @ [NL]"

definition two_parents :: bytes where
  "two_parents =
     ''tree 4b825dc642cb6eb9a060e54bf8d69288fbee4904'' @ [NL] @
     ''parent 1111111111111111111111111111111111111111'' @ [NL] @
     ''parent 2222222222222222222222222222222222222222'' @ [NL] @
     [NL] @ ''fix bug'' @ [NL]"

text \<open>A header line without a space: the blank-line test is reached at a cursor that
  is not on a newline.\<close>

definition no_space_header :: bytes where
  "no_space_header = ''tree'' @ [NL] @ [NL] @ ''fix bug'' @ [NL]"

text \<open>A tree payload with one entry whose mode has five digits.\<close>

definition dir_5digit :: bytes where
  "dir_5digit = ''40000 bar'' @ [NUL] @ replicate 19 (CHR 0x11) @ [CHR 0xFF]"

text \<open>A directory \<open>bar\<close> and a regular file \<open>bar.txt\<close>.\<close>

definition bar_dir :: GitTreeLeaf where
  "bar_dir = \<lparr>mode = ''040000'', path = ''bar'',
               sha = ''1111111111111111111111111111111111111111''\<rparr>"

definition bar_txt :: GitTreeLeaf where
  "bar_txt = \<lparr>mode = ''100644'', path = ''bar.txt'',
               sha = ''2222222222222222222222222222222222222222''\<rparr>"

text \<open>The blob of the scenario and its frame.\<close>

definition hello :: bytes where
  "hello = ''hello\<newline>''"

definition hello_frame :: bytes where
  "hello_frame = ''blob 6'' @ [NUL] @ ''hello\<newline>''"

text \<open>
  An instance of the library parameters for closed examples: data is stored as it is,
  and every digest is the SHA-1 of the frame \<open>blob 6\0hello\n\<close>.
\<close>

definition stored_lib :: pylib where
  "stored_lib = \<lparr>zlib_compress = (\<lambda>b. b), zlib_decompress = Some,
                  sha1_digest = (\<lambda>b. 0xce013625030ba8dba906f756967f9e9ca394464a)\<rparr>"

text \<open>A repository right after \<open>repo_create\<close>, as far as the object store looks at
  it, and the same repository once the blob is stored.\<close>

definition repo0 :: GitRepository where
  "repo0 = \<lparr>worktree = ''w'', gitdir = ''w/.git''\<rparr>"

definition fresh_store :: filesystem where
  "fresh_store = [''w'' \<mapsto> Dir, ''w/.git'' \<mapsto> Dir, ''w/.git/objects'' \<mapsto> Dir]"



text \<open>
  A diamond: the merge commit \<open>M\<close> has the parents \<open>A\<close> and \<open>B\<close>, which both
  have the parent \<open>R\<close>. Each commit is stored as a frame under its name.
\<close>

definition commit_frame :: "bytes \<Rightarrow> bytes" where
  "commit_frame payload = ''commit '' @ str_of_nat (length payload) @ [NUL] @ payload"

definition id_R :: string where "id_R = ''1111111111111111111111111111111111111111''"
definition id_A :: string where "id_A = ''aaaaaaaaaaaaaaaaaaaaaaaaaaaaaaaaaaaaaaaa''"
definition id_B :: string where "id_B = ''bbbbbbbbbbbbbbbbbbbbbbbbbbbbbbbbbbbbbbbb''"
definition id_M :: string where "id_M = ''cccccccccccccccccccccccccccccccccccccccc''"

definition commit_R :: bytes where
  "commit_R = ''tree 4b825dc642cb6eb9a060e54bf8d69288fbee4904'' @ [NL] @ [NL] @ ''root'' @ [NL]"

definition commit_A :: bytes where
  "commit_A = ''tree 4b825dc642cb6eb9a060e54bf8d69288fbee4904'' @ [NL] @
              ''parent '' @ id_R @ [NL] @ [NL] @ ''left'' @ [NL]"

definition commit_B :: bytes where
  "commit_B = ''tree 4b825dc642cb6eb9a060e54bf8d69288fbee4904'' @ [NL] @
              ''parent '' @ id_R @ [NL] @ [NL] @ ''right'' @ [NL]"

definition commit_M :: bytes where
  "commit_M = ''tree 4b825dc642cb6eb9a060e54bf8d69288fbee4904'' @ [NL] @
              ''parent '' @ id_A @ [NL] @ ''parent '' @ id_B @ [NL] @ [NL] @ ''merge'' @ [NL]"

definition diamond_store :: filesystem where
  "diamond_store = fresh_store
     (''w/.git/objects/11'' \<mapsto> Dir,
      ''w/.git/objects/11/11111111111111111111111111111111111111'' \<mapsto> File (commit_frame commit_R),
      ''w/.git/objects/aa'' \<mapsto> Dir,
      ''w/.git/objects/aa/aaaaaaaaaaaaaaaaaaaaaaaaaaaaaaaaaaaaaa'' \<mapsto> File (commit_frame commit_A),
      ''w/.git/objects/bb'' \<mapsto> Dir,
      ''w/.git/objects/bb/bbbbbbbbbbbbbbbbbbbbbbbbbbbbbbbbbbbbbb'' \<mapsto> File (commit_frame commit_B),
      ''w/.git/objects/cc'' \<mapsto> Dir,
      ''w/.git/objects/cc/cccccccccccccccccccccccccccccccccccccc'' \<mapsto> File (commit_frame commit_M))"

section \<open>Properties\<close>

subsection \<open>Blobs\<close>

lemma GitBlob_method_roundtrip:
  "GitBlob_serialize (GitBlob_deserialize data self) = Inr data"
  by (simp add: GitBlob_serialize_def GitBlob_deserialize_def)

lemma GitBlob_init_nonempty:
  "data \<noteq> [] \<Longrightarrow> GitBlob_serialize (GitBlob_init (Some data)) = Inr data"
  by (simp add: GitBlob_init_def GitObject_init_def GitBlob_serialize_def GitBlob_deserialize_def)

text \<open>
  Claim C8. A blob built from a payload serializes to that payload, the empty payload
  included. The constructor skips \<open>deserialize\<close> for the empty payload, so
  \<open>blobdata\<close> is never set and \<open>serialize\<close> raises \<open>AttributeError\<close> instead of
  returning the empty byte string; hashing an empty file as a blob ends the same way.
\<close>

theorem GitBlob_empty_payload_fails:
  "GitBlob_serialize (GitBlob_init (Some [])) = Inl AttributeError
   \<and> object_hash L [] ''blob'' None fs = Some (Inl AttributeError, fs)"
  by (simp add: GitBlob_init_def GitObject_init_def GitBlob_serialize_def object_hash_def
      object_write_def)

subsection \<open>The KVLM codec\<close>

lemma kvlm_parse_one_parent:
  "kvlm_parse one_parent 0 None =
     Some (Inr [(Some ''tree'', Bytes ''4b825dc642cb6eb9a060e54bf8d69288fbee4904''),
                (Some ''parent'', Bytes ''1111111111111111111111111111111111111111''),
                (None, Bytes ''fix bug\<newline>'')])"
  by code_simp

lemma kvlm_serialize_one_parent:
  "kvlm_serialize
     [(Some ''tree'', Bytes ''4b825dc642cb6eb9a060e54bf8d69288fbee4904''),
      (Some ''parent'', Bytes ''1111111111111111111111111111111111111111''),
      (None, Bytes ''fix bug\<newline>'')] = Inr (one_parent @ [NL])"
  by code_simp

lemma kvlm_parse_one_parent_again:
  "kvlm_parse (one_parent @ [NL]) 0 None =
     Some (Inr [(Some ''tree'', Bytes ''4b825dc642cb6eb9a060e54bf8d69288fbee4904''),
                (Some ''parent'', Bytes ''1111111111111111111111111111111111111111''),
                (None, Bytes ''fix bug\<newline>\<newline>'')])"
  by code_simp

lemma kvlm_parse_two_parents:
  "kvlm_parse two_parents 0 None =
     Some (Inr [(Some ''tree'', Bytes ''4b825dc642cb6eb9a060e54bf8d69288fbee4904''),
                (Some ''parent'',
                   ValList [Bytes ''1111111111111111111111111111111111111111'',
                            Bytes ''2222222222222222222222222222222222222222'']),
                (None, Bytes ''fix bug\<newline>'')])"
  by code_simp

lemma kvlm_serialize_two_parents:
  "kvlm_serialize
     [(Some ''tree'', Bytes ''4b825dc642cb6eb9a060e54bf8d69288fbee4904''),
      (Some ''parent'',
         ValList [Bytes ''1111111111111111111111111111111111111111'',
                  Bytes ''2222222222222222222222222222222222222222'']),
      (None, Bytes ''fix bug\<newline>'')] = Inl AttributeError"
  by (simp add: kvlm_serialize_def)

text \<open>
  Claim C1. The round trip \<open>parse(serialize(parse(x))) = parse(x)\<close>, and the two
  \<open>parent\<close> lines that come back from the serializer. The parser does return the two
  parents as a list, in order. The serializer wraps every value in a list, the list of
  parents too, and then calls \<open>replace\<close> on that list: \<open>AttributeError\<close>, no bytes.
  With a single parent the serializer returns the input with one more newline after
  the message, and parsing that gives a mapping with a longer message than the first.
\<close>

theorem kvlm_roundtrip_fails:
  "(\<exists>kv. kvlm_parse two_parents 0 None = Some (Inr kv)
        \<and> dict_get kv (Some ''parent'') =
            Some (ValList [Bytes ''1111111111111111111111111111111111111111'',
                           Bytes ''2222222222222222222222222222222222222222''])
        \<and> kvlm_serialize kv = Inl AttributeError)
   \<and> (\<exists>kv out kv'. kvlm_parse one_parent 0 None = Some (Inr kv)
        \<and> kvlm_serialize kv = Inr out \<and> out = one_parent @ [NL]
        \<and> kvlm_parse out 0 None = Some (Inr kv')
        \<and> dict_get kv None = Some (Bytes ''fix bug\<newline>'')
        \<and> dict_get kv' None = Some (Bytes ''fix bug\<newline>\<newline>'')
        \<and> kv' \<noteq> kv)"
proof (intro conjI)
  show "\<exists>kv. kvlm_parse two_parents 0 None = Some (Inr kv)
        \<and> dict_get kv (Some ''parent'') =
            Some (ValList [Bytes ''1111111111111111111111111111111111111111'',
                           Bytes ''2222222222222222222222222222222222222222''])
        \<and> kvlm_serialize kv = Inl AttributeError"
    unfolding kvlm_parse_two_parents
    by (simp add: kvlm_serialize_two_parents)
next
  show "\<exists>kv out kv'. kvlm_parse one_parent 0 None = Some (Inr kv)
        \<and> kvlm_serialize kv = Inr out \<and> out = one_parent @ [NL]
        \<and> kvlm_parse out 0 None = Some (Inr kv')
        \<and> dict_get kv None = Some (Bytes ''fix bug\<newline>'')
        \<and> dict_get kv' None = Some (Bytes ''fix bug\<newline>\<newline>'')
        \<and> kv' \<noteq> kv"
    unfolding kvlm_parse_one_parent
    by (simp add: kvlm_serialize_one_parent kvlm_parse_one_parent_again)
qed

text \<open>
  Claim C9, as stated: a blank-line test that is not on a newline is reported as
  \<open>MalformedObject\<close>. On \<open>no_space_header\<close> the test is reached at cursor 0, where
  the next newline (at 4) comes before the next space (at 9), and the parser does not answer
  \<open>MalformedObject\<close>.
\<close>

theorem kvlm_parse_not_MalformedObject:
  "py_find no_space_header NL 0 < py_find no_space_header SP 0
   \<and> py_find no_space_header NL 0 \<noteq> 0
   \<and> kvlm_parse no_space_header 0 None \<noteq> Some (Inl MalformedObject)"
  by code_simp

text \<open>
  Claim C9, amended. At every cursor where no space comes before the next newline
  (or there is no space at all) and the cursor is not on a newline, the \<open>assert\<close> of
  the base case fails: the parse ends with an \<open>AssertionError\<close> and returns no mapping.
\<close>

theorem kvlm_parse_bad_blank_line:
  assumes "py_find raw SP start < 0 \<or> py_find raw NL start < py_find raw SP start"
    and "py_find raw NL start \<noteq> start"
  shows "kvlm_parse raw start dct = Some (Inl AssertionError)"
  using assms by (subst kvlm_parse.simps) (simp add: Let_def)

theorem kvlm_parse_bad_blank_line_witness:
  "(py_find no_space_header SP 0 < 0
      \<or> py_find no_space_header NL 0 < py_find no_space_header SP 0)
   \<and> py_find no_space_header NL 0 \<noteq> 0
   \<and> kvlm_parse no_space_header 0 None = Some (Inl AssertionError)"
proof -
  have h1: "py_find no_space_header SP 0 < 0
      \<or> py_find no_space_header NL 0 < py_find no_space_header SP 0"
    by code_simp
  have h2: "py_find no_space_header NL 0 \<noteq> 0"
    by code_simp
  show ?thesis
    using h1 h2 kvlm_parse_bad_blank_line [OF h1 h2, of None] by simp
qed

subsection \<open>The tree codec\<close>

lemma tree_parse_dir_5digit:
  "tree_parse dir_5digit =
     Some (Inr [\<lparr>mode = '' 40000'', path = ''bar'',
                 sha = ''11111111111111111111111111111111111111ff''\<rparr>])"
  by code_simp

lemma tree_serialize_dir_5digit:
  "fst (tree_serialize \<lparr>items = Some [\<lparr>mode = '' 40000'', path = ''bar'',
                                         sha = ''11111111111111111111111111111111111111ff''\<rparr>]\<rparr>)
   = Inr ('' 40000 bar'' @ [NUL] @ replicate 19 (CHR 0x11) @ [CHR 0xFF])"
  by code_simp

text \<open>
  Claim C6. A mode of five digits is read, and written back as six octal digits,
  \<open>040000\<close>. The parser puts a space, not a zero, in front of the five digits, and the
  serializer writes the stored mode as it is: the entry comes back with the six bytes
  \<open>" 40000"\<close>, the first of which is no octal digit.
\<close>

theorem tree_mode_padded_with_space:
  "\<exists>leaf. tree_parse dir_5digit = Some (Inr [leaf])
     \<and> mode leaf = '' 40000''
     \<and> fst (tree_serialize \<lparr>items = Some [leaf]\<rparr>) = Inr ([SP] @ dir_5digit)
     \<and> [SP] @ dir_5digit \<noteq> ''0'' @ dir_5digit"
  unfolding tree_parse_dir_5digit
  by (simp add: tree_serialize_dir_5digit) (simp add: dir_5digit_def)

lemma tree_serialize_bar:
  "fst (tree_serialize \<lparr>items = Some [bar_dir, bar_txt]\<rparr>) =
     Inr (''100644 bar.txt'' @ [NUL] @ replicate 20 (CHR 0x22) @
          ''040000 bar'' @ [NUL] @ replicate 20 (CHR 0x11))"
  by code_simp

lemma tree_leaf_sort_key_bar:
  "tree_leaf_sort_key bar_dir = ''bar/'' \<and> tree_leaf_sort_key bar_txt = ''bar.txt''
   \<and> tree_leaf_sort_key bar_txt < tree_leaf_sort_key bar_dir"
  by (simp add: tree_leaf_sort_key_def bar_txt_def bar_dir_def)

text \<open>
  Claim C7. \<open>tree_serialize\<close> writes the entries in the order of their sort keys: the
  entries written are a rearrangement of the object's entries, sorted by
  \<open>tree_leaf_sort_key\<close>, entries with equal keys staying in their order. The key is
  the path for a mode that starts with \<open>10\<close> (a regular file, the blob mode of the
  claim) and the path followed by \<open>/\<close> for every other mode (directories, and also
  the modes \<open>12\<close> and \<open>16\<close>). So the directory \<open>bar\<close> has the key \<open>bar/\<close>, the
  file \<open>bar.txt\<close> the smaller key \<open>bar.txt\<close>, and the file's entry is written first.
\<close>

theorem tree_serialize_canonical_order:
  fixes obj :: "'a GitTree_scheme"
  shows "(\<exists>ys. tree_serialize (obj\<lparr>items := Some its\<rparr>) = (tree_emit ys [], obj\<lparr>items := Some ys\<rparr>)
           \<and> sorted (map tree_leaf_sort_key ys) \<and> mset ys = mset its
           \<and> (\<forall>k. filter (\<lambda>l. tree_leaf_sort_key l = k) ys
                  = filter (\<lambda>l. tree_leaf_sort_key l = k) its))
         \<and> tree_leaf_sort_key leaf
             = (if startswith (mode leaf) ''10'' then path leaf else path leaf @ ''/'')
         \<and> tree_leaf_sort_key bar_dir = ''bar/''
         \<and> tree_leaf_sort_key bar_txt < tree_leaf_sort_key bar_dir
         \<and> fst (tree_serialize \<lparr>items = Some [bar_dir, bar_txt]\<rparr>) =
             Inr (''100644 bar.txt'' @ [NUL] @ replicate 20 (CHR 0x22) @
                  ''040000 bar'' @ [NUL] @ replicate 20 (CHR 0x11))"
proof (intro conjI)
  show "\<exists>ys. tree_serialize (obj\<lparr>items := Some its\<rparr>) = (tree_emit ys [], obj\<lparr>items := Some ys\<rparr>)
           \<and> sorted (map tree_leaf_sort_key ys) \<and> mset ys = mset its
           \<and> (\<forall>k. filter (\<lambda>l. tree_leaf_sort_key l = k) ys
                  = filter (\<lambda>l. tree_leaf_sort_key l = k) its)"
    by (rule exI [of _ "sort_key tree_leaf_sort_key its"])
       (simp add: tree_serialize_def Let_def sort_key_stable)
qed (simp_all add: tree_leaf_sort_key_bar tree_serialize_bar, simp add: tree_leaf_sort_key_def)

lemma tree_serialize_idem:
  "tree_serialize t = (r, t') \<Longrightarrow> tree_serialize t' = (r, t')"
  by (auto simp: tree_serialize_def Let_def sort_key_id_if_sorted split: option.splits)

lemma tree_serialize_bar_object:
  "snd (tree_serialize \<lparr>items = Some [bar_dir, bar_txt]\<rparr>) = \<lparr>items = Some [bar_txt, bar_dir]\<rparr>"
  by (simp add: tree_serialize_def Let_def tree_leaf_sort_key_def bar_dir_def bar_txt_def)

text \<open>
  Claim C10. \<open>tree_serialize\<close> changes its argument: afterwards the object's
  \<open>items\<close> are the old entries (the same entries, each as it was) in canonical
  order, that is sorted by the path, followed by \<open>/\<close> unless the mode starts with
  \<open>10\<close>, entries with equal keys staying in their order; every other field of the
  object is as before; and serializing the object again gives the same result, byte
  for byte, and changes nothing more. On the entries \<open>bar\<close> (a directory) and
  \<open>bar.txt\<close> the object is left with \<open>bar.txt\<close> first.
\<close>

theorem tree_serialize_sorts_in_place:
  fixes obj :: "'a GitTree_scheme"
  shows "(case tree_serialize (obj\<lparr>items := Some its\<rparr>) of
           (r, obj') \<Rightarrow>
              items obj' = Some (sort_key tree_leaf_sort_key its)
            \<and> sorted (map tree_leaf_sort_key (sort_key tree_leaf_sort_key its))
            \<and> mset (sort_key tree_leaf_sort_key its) = mset its
            \<and> GitTree.more obj' = GitTree.more obj
            \<and> tree_serialize obj' = (r, obj')
            \<and> (\<exists>ys. items obj' = Some ys
                  \<and> sorted (map (\<lambda>l. if startswith (mode l) ''10'' then path l else path l @ ''/'') ys)
                  \<and> mset ys = mset its
                  \<and> (\<forall>k. filter (\<lambda>l. (if startswith (mode l) ''10'' then path l else path l @ ''/'') = k) ys
                         = filter (\<lambda>l. (if startswith (mode l) ''10'' then path l else path l @ ''/'') = k) its)))
       \<and> tree_leaf_sort_key leaf
            = (if startswith (mode leaf) ''10'' then path leaf else path leaf @ ''/'')
       \<and> tree_serialize \<lparr>items = Some [bar_dir, bar_txt]\<rparr>
            = (Inr (''100644 bar.txt'' @ [NUL] @ replicate 20 (CHR 0x22) @
                    ''040000 bar'' @ [NUL] @ replicate 20 (CHR 0x11)),
               \<lparr>items = Some [bar_txt, bar_dir]\<rparr>)
       \<and> tree_serialize \<lparr>items = Some [bar_txt, bar_dir]\<rparr>
            = (Inr (''100644 bar.txt'' @ [NUL] @ replicate 20 (CHR 0x22) @
                    ''040000 bar'' @ [NUL] @ replicate 20 (CHR 0x11)),
               \<lparr>items = Some [bar_txt, bar_dir]\<rparr>)
       \<and> [bar_txt, bar_dir] \<noteq> [bar_dir, bar_txt]"
proof (intro conjI)
  have key: "tree_leaf_sort_key = (\<lambda>l. if startswith (mode l) ''10'' then path l else path l @ ''/'')"
    by (rule ext) (simp add: tree_leaf_sort_key_def)
  show "case tree_serialize (obj\<lparr>items := Some its\<rparr>) of
           (r, obj') \<Rightarrow>
              items obj' = Some (sort_key tree_leaf_sort_key its)
            \<and> sorted (map tree_leaf_sort_key (sort_key tree_leaf_sort_key its))
            \<and> mset (sort_key tree_leaf_sort_key its) = mset its
            \<and> GitTree.more obj' = GitTree.more obj
            \<and> tree_serialize obj' = (r, obj')
            \<and> (\<exists>ys. items obj' = Some ys
                  \<and> sorted (map (\<lambda>l. if startswith (mode l) ''10'' then path l else path l @ ''/'') ys)
                  \<and> mset ys = mset its
                  \<and> (\<forall>k. filter (\<lambda>l. (if startswith (mode l) ''10'' then path l else path l @ ''/'') = k) ys
                         = filter (\<lambda>l. (if startswith (mode l) ''10'' then path l else path l @ ''/'') = k) its))"
  proof -
    let ?ys = "sort_key tree_leaf_sort_key its"
    have a: "sorted (map (\<lambda>l. if startswith (mode l) ''10'' then path l else path l @ ''/'') ?ys)"
      using sorted_sort_key [of tree_leaf_sort_key its] unfolding tree_leaf_sort_key_def .
    have b: "\<forall>k. filter (\<lambda>l. (if startswith (mode l) ''10'' then path l else path l @ ''/'') = k) ?ys
                = filter (\<lambda>l. (if startswith (mode l) ''10'' then path l else path l @ ''/'') = k) its"
      using sort_key_stable [of tree_leaf_sort_key _ its] unfolding tree_leaf_sort_key_def by blast
    have c: "\<exists>ys. Some ?ys = Some ys
                  \<and> sorted (map (\<lambda>l. if startswith (mode l) ''10'' then path l else path l @ ''/'') ys)
                  \<and> mset ys = mset its
                  \<and> (\<forall>k. filter (\<lambda>l. (if startswith (mode l) ''10'' then path l else path l @ ''/'') = k) ys
                         = filter (\<lambda>l. (if startswith (mode l) ''10'' then path l else path l @ ''/'') = k) its)"
      using a b by (intro exI [of _ ?ys] conjI) simp_all
    have d: "tree_serialize (obj\<lparr>items := Some its\<rparr>)
               = (tree_emit ?ys [], obj\<lparr>items := Some ?ys\<rparr>)"
      by (simp add: tree_serialize_def Let_def)
    have e: "tree_serialize (obj\<lparr>items := Some ?ys\<rparr>)
               = (tree_emit ?ys [], obj\<lparr>items := Some ?ys\<rparr>)"
      by (simp add: tree_serialize_def Let_def sort_key_id_if_sorted)
    show ?thesis
      unfolding d prod.case using c e by simp
  qed
  show "tree_serialize \<lparr>items = Some [bar_dir, bar_txt]\<rparr>
            = (Inr (''100644 bar.txt'' @ [NUL] @ replicate 20 (CHR 0x22) @
                    ''040000 bar'' @ [NUL] @ replicate 20 (CHR 0x11)),
               \<lparr>items = Some [bar_txt, bar_dir]\<rparr>)"
    using tree_serialize_bar tree_serialize_bar_object
    by (cases "tree_serialize \<lparr>items = Some [bar_dir, bar_txt]\<rparr>") simp
  then show "tree_serialize \<lparr>items = Some [bar_txt, bar_dir]\<rparr>
            = (Inr (''100644 bar.txt'' @ [NUL] @ replicate 20 (CHR 0x22) @
                    ''040000 bar'' @ [NUL] @ replicate 20 (CHR 0x11)),
               \<lparr>items = Some [bar_txt, bar_dir]\<rparr>)"
    by (rule tree_serialize_idem)
qed (simp_all add: tree_leaf_sort_key_def bar_dir_def bar_txt_def)

subsection \<open>The object store\<close>


lemma fmt_serialize:
  "serialize obj = (r, obj') \<Longrightarrow> fmt obj' = fmt obj"
  by (cases obj) (auto split: prod.splits)

lemma os_makedirs_isdir:
  "os_makedirs fs p = Inr fs1 \<Longrightarrow> os_path_isdir fs1 p"
  by (auto simp: os_makedirs_def os_path_isdir_def os_path_exists_def
      split: if_splits option.splits)




lemma repo_dir_isdir_after:
  "repo_dir fs repo ps mk = (Inr (Some d), fs1) \<Longrightarrow> os_path_isdir fs1 d"
  by (auto simp: repo_dir_def Let_def split: if_splits sum.splits dest: os_makedirs_isdir)



lemma repo_dir_isdir:
  "os_path_isdir fs (repo_path repo ps) \<Longrightarrow>
     repo_dir fs repo ps mk = (Inr (Some (repo_path repo ps)), fs)"
  by (auto simp: repo_dir_def Let_def os_path_isdir_def os_path_exists_def
      split: option.splits node.splits)


lemma repo_file_isdir:
  "os_path_isdir fs (repo_path repo (butlast ps)) \<Longrightarrow> repo_path repo (butlast ps) \<noteq> [] \<Longrightarrow>
     repo_file fs repo ps mk = (Inr (Some (repo_path repo ps)), fs)"
  by (simp add: repo_file_def repo_dir_isdir)



lemma repo_dir_Inl:
  "repo_dir fs repo ps mk = (Inl e, fs1) \<Longrightarrow> fs1 = fs"
  by (auto simp: repo_dir_def Let_def split: if_splits sum.splits)



lemma repo_file_Inl:
  "repo_file fs repo ps mk = (Inl e, fs1) \<Longrightarrow> fs1 = fs"
  by (auto simp: repo_file_def split: prod.splits sum.splits option.splits if_splits
      dest: repo_dir_Inl)



lemma digits_be_length: "length (digits_be b k n) = k"
  by (induction k arbitrary: n) auto

lemma digits_be_range: "0 < b \<Longrightarrow> x \<in> set (digits_be b k n) \<Longrightarrow> 0 \<le> x \<and> x < b"
  by (induction k arbitrary: n) auto

lemma sha1_hexdigest_length: "length (sha1_hexdigest L b) = 40"
  by (simp add: sha1_hexdigest_def digits_be_length)

lemma digit_char_hex: "d < 16 \<Longrightarrow> digit_char d \<in> set ''0123456789abcdef''"
  unfolding digit_char_def by (rule nth_mem) simp

lemma sha1_hexdigest_hex: "set (sha1_hexdigest L b) \<subseteq> set ''0123456789abcdef''"
proof
  fix c assume "c \<in> set (sha1_hexdigest L b)"
  then obtain x where x: "x \<in> set (digits_be 16 40 (sha1_digest L b))" and c: "c = digit_char (nat x)"
    by (auto simp: sha1_hexdigest_def)
  have "0 \<le> x \<and> x < 16" by (rule digits_be_range [OF _ x]) simp
  then have "nat x < 16" by arith
  then show "c \<in> set ''0123456789abcdef''" unfolding c by (rule digit_char_hex)
qed

lemma sha1_hexdigest_no_slash: "CHR ''/'' \<notin> set (sha1_hexdigest L b)"
  using sha1_hexdigest_hex [of L b] by auto

lemma startswith_single: "startswith xs [c] \<Longrightarrow> c \<in> set xs"
  by (cases xs) auto

lemma os_path_join_snoc:
  "os_path_join a (ps @ [b]) =
     (if startswith b ''/'' then b
      else if os_path_join a ps = [] \<or> last (os_path_join a ps) = CHR ''/'' then os_path_join a ps @ b
      else os_path_join a ps @ ''/'' @ b)"
  by (induction ps arbitrary: a) simp_all

lemma prefixes_from_length:
  "x \<in> set (prefixes_from acc cs) \<Longrightarrow> length x < length acc + length cs"
proof (induction cs arbitrary: acc)
  case Nil
  then show ?case by simp
next
  case (Cons c cs)
  from Cons.prems have "x = acc \<or> x \<in> set (prefixes_from (acc @ [c]) cs)"
    by (auto split: if_splits)
  then show ?case
  proof
    assume "x = acc" then show ?thesis by simp
  next
    assume "x \<in> set (prefixes_from (acc @ [c]) cs)"
    from Cons.IH [OF this] show ?thesis by simp
  qed
qed

lemma path_prefixes_shorter: "x \<in> set (path_prefixes p) \<Longrightarrow> length x < length p"
  using prefixes_from_length [of x "[]" p] by (simp add: path_prefixes_def)

lemma object_path_longer:
  "length (object_dir repo (sha1_hexdigest L b)) < length (object_path repo (sha1_hexdigest L b))"
proof -
  let ?s = "sha1_hexdigest L b"
  have r: "py_slice_from ?s 2 = drop 2 ?s"
    by (simp add: py_slice_from_def py_norm_def sha1_hexdigest_length)
  have "CHR ''/'' \<notin> set (drop 2 ?s)"
    using sha1_hexdigest_no_slash [of L b] by (auto dest: in_set_dropD)
  then have ns: "\<not> startswith (drop 2 ?s) ''/''"
    by (auto dest: startswith_single)
  have len: "length (drop 2 ?s) = 38" by (simp add: sha1_hexdigest_length)
  have "object_path repo ?s = os_path_join (gitdir repo) ([''objects'', py_slice ?s 0 2] @ [drop 2 ?s])"
    by (simp add: repo_path_def r)
  also have "length \<dots> > length (os_path_join (gitdir repo) [''objects'', py_slice ?s 0 2])"
    unfolding os_path_join_snoc using ns len by simp
  finally show ?thesis by (simp add: repo_path_def)
qed

lemma object_dir_nonempty: "object_dir repo (sha1_hexdigest L b) \<noteq> []"
proof -
  let ?s = "sha1_hexdigest L b"
  have t: "py_slice ?s 0 2 = take 2 ?s"
    by (simp add: py_slice_def py_norm_def sha1_hexdigest_length)
  have "length (take 2 ?s) = 2" by (simp add: sha1_hexdigest_length)
  then have ne: "take 2 ?s \<noteq> []" by auto
  have "object_dir repo ?s = os_path_join (gitdir repo) ([''objects''] @ [take 2 ?s])"
    by (simp add: repo_path_def t)
  also have "\<dots> \<noteq> []"
    unfolding os_path_join_snoc using ne by simp
  finally show ?thesis .
qed

lemma hello_frame_eval:
  "py_find hello_frame SP 0 = 4"
  "py_slice hello_frame 0 4 = ''blob''"
  "py_find hello_frame NUL 4 = 6"
  "decode_ascii (py_slice hello_frame 4 6) = Inr '' 6''"
  "py_int 10 '' 6'' = Inr 6"
  "int (length hello_frame) - 6 - 1 = 6"
  "py_slice_from hello_frame 7 = hello"
  by code_simp+

lemma hello_blob_frame:
  "serialize (Blob (GitBlob_init (Some hello))) = (Inr hello, Blob (GitBlob_init (Some hello)))"
  "fmt (Blob (GitBlob_init (Some hello))) @ [SP] @ str_of_nat (length hello) @ [NUL] @ hello = hello_frame"
  by code_simp+

lemma object_read_hello:
  assumes "fst (repo_file fs repo [''objects'', py_slice s 0 2, py_slice_from s 2] False) = Inr (Some p)"
    and "fs p = Some (File c)" and "zlib_decompress L c = Some hello_frame"
  shows "object_read L fs repo s = Some (Inr (Blob (GitBlob_init (Some hello))))"
  using assms by (simp add: object_read_def hello_frame_eval Let_def)

lemma repo_dir_mkdir:
  assumes "\<not> list_ex (os_path_isfile fs) (path_prefixes (repo_path repo ps) @ [repo_path repo ps])"
  shows "\<exists>fs1. repo_dir fs repo ps True = (Inr (Some (repo_path repo ps)), fs1)
           \<and> (\<forall>q. q \<notin> set (path_prefixes (repo_path repo ps) @ [repo_path repo ps]) \<longrightarrow> fs1 q = fs q)"
proof (cases "os_path_exists fs (repo_path repo ps)")
  case True
  moreover from assms have "\<not> os_path_isfile fs (repo_path repo ps)" by simp
  ultimately have "os_path_isdir fs (repo_path repo ps)"
    by (auto simp: os_path_exists_def os_path_isfile_def os_path_isdir_def split: option.splits node.splits)
  then show ?thesis by (simp add: repo_dir_isdir)
next
  case False
  with assms show ?thesis
    by (simp add: repo_dir_def os_makedirs_def Let_def)
qed

lemma stored_lib_hexdigest:
  "sha1_hexdigest stored_lib b = ''ce013625030ba8dba906f756967f9e9ca394464a''"
  unfolding sha1_hexdigest_def stored_lib_def by code_simp

lemma repo0_paths:
  "object_dir repo0 ''ce013625030ba8dba906f756967f9e9ca394464a'' = ''w/.git/objects/ce''"
  "object_path repo0 ''ce013625030ba8dba906f756967f9e9ca394464a''
     = ''w/.git/objects/ce/013625030ba8dba906f756967f9e9ca394464a''"
  "path_prefixes ''w/.git/objects/ce'' = [''w'', ''w/.git'', ''w/.git/objects'']"
  by code_simp+

lemma hello_id_slices:
  "py_slice ''ce013625030ba8dba906f756967f9e9ca394464a'' 0 2 = ''ce''"
  "py_slice_from ''ce013625030ba8dba906f756967f9e9ca394464a'' 2 = ''013625030ba8dba906f756967f9e9ca394464a''"
  by code_simp+

lemma repo0_join:
  "repo_path repo0 [''objects'', ''ce''] = ''w/.git/objects/ce''"
  "repo_path repo0 [''objects'', ''ce'', ''013625030ba8dba906f756967f9e9ca394464a'']
     = ''w/.git/objects/ce/013625030ba8dba906f756967f9e9ca394464a''"
  by code_simp+










text \<open>
  Claim C4. Writing the blob \<open>hello\n\<close> returns the 40 lower-case hexadecimal
  digits of the SHA-1 digest of the frame \<open>blob 6\0hello\n\<close>, with a repository and
  without; and reading that identity from the repository just written returns a blob
  that serializes to \<open>hello\n\<close>. The repository is one where \<open>zlib\<close> gives back
  the frame it compressed, no regular file is in the way of the object's directory,
  and nothing is at the object's path yet.
\<close>

theorem hello_blob_scenario:
  assumes z: "zlib_decompress L (zlib_compress L hello_frame) = Some hello_frame"
    and anc: "\<not> list_ex (os_path_isfile fs)
                 (path_prefixes (object_dir repo (sha1_hexdigest L hello_frame))
                    @ [object_dir repo (sha1_hexdigest L hello_frame)])"
    and new: "fs (object_path repo (sha1_hexdigest L hello_frame)) = None"
  shows "length (sha1_hexdigest L hello_frame) = 40
       \<and> set (sha1_hexdigest L hello_frame) \<subseteq> set ''0123456789abcdef''
       \<and> object_write L (Blob (GitBlob_init (Some hello))) None fs
            = (Inr (sha1_hexdigest L hello_frame), Blob (GitBlob_init (Some hello)), fs)
       \<and> (\<exists>fs' b. object_write L (Blob (GitBlob_init (Some hello))) (Some repo) fs
                     = (Inr (sha1_hexdigest L hello_frame), Blob (GitBlob_init (Some hello)), fs')
                 \<and> object_read L fs' repo (sha1_hexdigest L hello_frame) = Some (Inr (Blob b))
                 \<and> GitBlob_serialize b = Inr hello)"
proof -
  let ?s = "sha1_hexdigest L hello_frame"
  let ?blob = "Blob (GitBlob_init (Some hello))"
  let ?d = "object_dir repo ?s" and ?p = "object_path repo ?s"
  have frame: "fmt ?blob @ [SP] @ str_of_nat (length hello) @ [NUL] @ hello = hello_frame"
    by (rule hello_blob_frame)
  have g3: "object_write L ?blob None fs = (Inr ?s, ?blob, fs)"
    unfolding object_write_def
    apply (simp only: hello_blob_frame(1) prod.case sum.case)
    apply (simp only: Let_def frame option.case)
    done
  from repo_dir_mkdir [OF anc] obtain fs1 where
    rd: "repo_dir fs repo [''objects'', py_slice ?s 0 2] True = (Inr (Some ?d), fs1)"
    and same: "\<forall>q. q \<notin> set (path_prefixes ?d @ [?d]) \<longrightarrow> fs1 q = fs q"
    by blast
  have d1: "os_path_isdir fs1 ?d" by (rule repo_dir_isdir_after [OF rd])
  have p_notin: "?p \<notin> set (path_prefixes ?d @ [?d])"
    using object_path_longer [of repo L hello_frame] path_prefixes_shorter [of ?p ?d] by auto
  with same new have p1: "fs1 ?p = None" by simp
  have rf: "repo_file fs repo [''objects'', py_slice ?s 0 2, py_slice_from ?s 2] True = (Inr (Some ?p), fs1)"
    using rd object_dir_nonempty [of repo L hello_frame] by (simp add: repo_file_def)
  let ?fs' = "fs1(?p \<mapsto> File (zlib_compress L hello_frame))"
  have nex: "\<not> os_path_exists fs1 ?p" using p1 by (simp add: os_path_exists_def)
  have wf: "os_write_file fs1 ?p (zlib_compress L hello_frame) = Inr ?fs'"
    using p1 by (simp add: os_write_file_def)
  have w: "object_write L ?blob (Some repo) fs = (Inr ?s, ?blob, ?fs')"
    unfolding object_write_def
    apply (simp only: hello_blob_frame(1) prod.case sum.case)
    apply (simp only: Let_def frame)
    apply (simp only: option.case rf prod.case sum.case)
    apply (simp only: nex wf simp_thms if_True sum.case)
    done
  have "?d \<noteq> ?p" using d1 p1 by (auto simp: os_path_isdir_def)
  with d1 have d': "os_path_isdir ?fs' ?d" by (simp add: os_path_isdir_def)
  have rf': "fst (repo_file ?fs' repo [''objects'', py_slice ?s 0 2, py_slice_from ?s 2] False) = Inr (Some ?p)"
    using repo_file_isdir [of ?fs' repo "[''objects'', py_slice ?s 0 2, py_slice_from ?s 2]" False]
      d' object_dir_nonempty [of repo L hello_frame] by simp
  have r: "object_read L ?fs' repo ?s = Some (Inr ?blob)"
    by (rule object_read_hello [OF rf' _ z]) simp
  have ser: "GitBlob_serialize (GitBlob_init (Some hello)) = Inr hello"
    by (rule GitBlob_init_nonempty) (simp add: hello_def)
  from w r ser have g4: "\<exists>fs' b. object_write L ?blob (Some repo) fs = (Inr ?s, ?blob, fs')
                 \<and> object_read L fs' repo ?s = Some (Inr (Blob b))
                 \<and> GitBlob_serialize b = Inr hello"
    by blast
  from sha1_hexdigest_length sha1_hexdigest_hex g3 g4 show ?thesis by (intro conjI)
qed

theorem hello_blob_scenario_witness:
  "zlib_decompress stored_lib (zlib_compress stored_lib hello_frame) = Some hello_frame
   \<and> \<not> list_ex (os_path_isfile fresh_store)
          (path_prefixes (object_dir repo0 (sha1_hexdigest stored_lib hello_frame))
             @ [object_dir repo0 (sha1_hexdigest stored_lib hello_frame)])
   \<and> fresh_store (object_path repo0 (sha1_hexdigest stored_lib hello_frame)) = None
   \<and> sha1_hexdigest stored_lib hello_frame = ''ce013625030ba8dba906f756967f9e9ca394464a''
   \<and> (\<exists>fs' b. object_write stored_lib (Blob (GitBlob_init (Some hello))) (Some repo0) fresh_store
                     = (Inr ''ce013625030ba8dba906f756967f9e9ca394464a'', Blob (GitBlob_init (Some hello)), fs')
                 \<and> object_read stored_lib fs' repo0 ''ce013625030ba8dba906f756967f9e9ca394464a'' = Some (Inr (Blob b))
                 \<and> GitBlob_serialize b = Inr hello)"
proof -
  have h1: "zlib_decompress stored_lib (zlib_compress stored_lib hello_frame) = Some hello_frame"
    by (simp add: stored_lib_def)
  have h2: "\<not> list_ex (os_path_isfile fresh_store)
          (path_prefixes (object_dir repo0 (sha1_hexdigest stored_lib hello_frame))
             @ [object_dir repo0 (sha1_hexdigest stored_lib hello_frame)])"
    by (simp add: stored_lib_hexdigest repo0_paths fresh_store_def os_path_isfile_def)
  have h3: "fresh_store (object_path repo0 (sha1_hexdigest stored_lib hello_frame)) = None"
    by (simp add: stored_lib_hexdigest repo0_paths fresh_store_def)
  show ?thesis
    using h1 h2 h3 hello_blob_scenario [OF h1 h2 h3]
    by (simp add: stored_lib_hexdigest)
qed

lemma GitCommit_update_all: "(c :: GitCommit)\<lparr>kvlm := v\<rparr> = \<lparr>kvlm = v\<rparr>"
  by (cases c) simp

lemma GitTree_update_all: "(t :: GitTree)\<lparr>items := v\<rparr> = \<lparr>items = v\<rparr>"
  by (cases t) simp

lemma GitCommit_init_result:
  "GitCommit_init data = Some z \<Longrightarrow> map_sum id C z = Inr obj \<Longrightarrow> obj = C \<lparr>kvlm = Some []\<rparr>"
  by (cases z) (auto simp: GitCommit_init_def GitCommit_update_all split: option.splits sum.splits)

lemma GitTree_init_result:
  "GitTree_init data = Some z \<Longrightarrow> map_sum id C z = Inr obj \<Longrightarrow> obj = C \<lparr>items = Some []\<rparr>"
  by (cases z) (auto simp: GitTree_init_def GitTree_update_all split: option.splits sum.splits)

text \<open>Whatever \<open>object_read\<close> returns that is not a blob is empty: the
  constructors discard what the deserializers stored.\<close>

lemma object_read_result:
  assumes "object_read L fs repo s = Some (Inr obj)"
  shows "(\<exists>b. obj = Blob b) \<or> obj = Commit \<lparr>kvlm = Some []\<rparr> \<or> obj = Tag \<lparr>kvlm = Some []\<rparr>
       \<or> obj = Tree \<lparr>items = Some []\<rparr>"
  using assms
  by (auto simp: object_read_def Let_def
      split: sum.splits option.splits node.splits if_splits
      dest: GitCommit_init_result GitTree_init_result)

lemma kvlm_parse_commit_M:
  "kvlm_parse commit_M 0 None =
     Some (Inr [(Some ''tree'', Bytes ''4b825dc642cb6eb9a060e54bf8d69288fbee4904''),
                (Some ''parent'', ValList [Bytes id_A, Bytes id_B]),
                (None, Bytes ''merge\<newline>'')])"
  by code_simp

lemma object_read_id_M:
  "object_read stored_lib diamond_store repo0 id_M = Some (Inr (Commit \<lparr>kvlm = Some []\<rparr>))"
  by code_simp

text \<open>
  Claim C3. \<open>object_read\<close> reports a missing file as \<open>ObjectNotFound\<close> and
  otherwise returns what the deserializer of the variant makes of the payload. In a
  fresh repository the directory \<open>objects/ce\<close> does not exist, \<open>repo_file\<close> returns
  \<open>None\<close>, and \<open>os.path.isfile(None)\<close> raises \<open>TypeError\<close>. And the commit \<open>M\<close>
  of the diamond, whose payload the deserializer parses into a mapping with a tree,
  two parents and a message, is returned with the empty mapping.
\<close>

theorem object_read_taxonomy_fails:
  "object_read L fresh_store repo0 ''ce013625030ba8dba906f756967f9e9ca394464a'' = Some (Inl TypeError)
   \<and> GitCommit_deserialize commit_M \<lparr>kvlm = None\<rparr> =
       Some (Inr \<lparr>kvlm = Some [(Some ''tree'', Bytes ''4b825dc642cb6eb9a060e54bf8d69288fbee4904''),
                                 (Some ''parent'', ValList [Bytes id_A, Bytes id_B]),
                                 (None, Bytes ''merge\<newline>'')]\<rparr>)
   \<and> object_read stored_lib diamond_store repo0 id_M = Some (Inr (Commit \<lparr>kvlm = Some []\<rparr>))"
proof (intro conjI)
  show "object_read L fresh_store repo0 ''ce013625030ba8dba906f756967f9e9ca394464a'' = Some (Inl TypeError)"
    by (simp add: object_read_def repo_file_def repo_dir_def Let_def hello_id_slices repo0_join
        os_path_exists_def fresh_store_def)
qed (simp_all add: GitCommit_deserialize_def kvlm_parse_commit_M object_read_id_M)

subsection \<open>Commit graph traversal\<close>

lemma log_graphviz_unseen_fails:
  assumes "s \<notin> seen"
  shows "log_graphviz (Suc n) L fs repo s (seen, out) = None
       \<or> (\<exists>e. log_graphviz (Suc n) L fs repo s (seen, out) = Some (Inl e, insert s seen, out))"
proof (cases "object_read L fs repo s")
  case None
  with assms show ?thesis by simp
next
  case (Some r)
  show ?thesis
  proof (cases r)
    case (Inl e)
    with Some assms show ?thesis by simp
  next
    case (Inr obj)
    with Some have "object_read L fs repo s = Some (Inr obj)" by simp
    from object_read_result [OF this] this assms show ?thesis
      by (auto simp: Let_def)
  qed
qed

text \<open>
  Claim C2. Started at the merge commit of the diamond, the traversal prints the
  node of the shared ancestor once and one edge for each parent. The commit that
  \<open>object_read\<close> returns has the empty mapping, so \<open>commit.kvlm[None]\<close> raises
  \<open>KeyError\<close> at the merge commit itself: nothing has been printed, and only the
  merge commit is in \<open>seen\<close>. (By \<open>log_graphviz_unseen_fails\<close> this is so at every
  commit not yet seen, in every repository.)
\<close>

theorem log_graphviz_diamond_fails:
  "log_graphviz (Suc n) stored_lib diamond_store repo0 id_M ({}, []) = Some (Inl KeyError, {id_M}, [])"
  by (simp add: object_read_id_M)

end
